theory Spec2Isabelle
  imports Complex_Main
begin

section \<open>Python values, strings and errors\<close>

text \<open>
  The values that \<open>response.json()\<close> hands to \<open>geocode_address\<close>, and that end up in
  the geocoding cache and in the result columns. A dict is kept as an association list
  (looked up with \<open>map_of\<close>). A number is a real or one of the three special floats
  \<open>nan\<close>, \<open>inf\<close> and \<open>-inf\<close>, which \<open>float\<close> and the JSON parser can both return; an
  int and a float are not told apart, and the rounding of doubles is not modelled.
\<close>

datatype pynum = Fin real | NotANumber | Infinite bool

datatype pyval =
    PNone
  | PBool bool
  | PNum pynum
  | PStr string
  | PList "pyval list"
  | PDict "(string \<times> pyval) list"

datatype error =
    RequestError
  | KeyError
  | IndexError
  | TypeError
  | ValueError
  | AttributeError
  | ReadFileError

text \<open>Sequencing of fallible steps: the first raise ends the block.\<close>

definition and_then :: "error + 'a \<Rightarrow> ('a \<Rightarrow> error + 'b) \<Rightarrow> error + 'b" where
  "and_then m f = (case m of Inl e \<Rightarrow> Inl e | Inr x \<Rightarrow> f x)"

text \<open>Python truthiness, as tested by \<open>if data:\<close>.\<close>

fun truthy :: "pyval \<Rightarrow> bool" where
  "truthy PNone = False"
| "truthy (PBool b) = b"
| "truthy (PNum r) = (r \<noteq> Fin 0)"
| "truthy (PStr s) = (s \<noteq> [])"
| "truthy (PList xs) = (xs \<noteq> [])"
| "truthy (PDict kvs) = (kvs \<noteq> [])"

text \<open>\<open>x[0]\<close>. The keys of a parsed JSON object are strings, so \<open>0\<close> is never one.\<close>

fun getitem0 :: "pyval \<Rightarrow> error + pyval" where
  "getitem0 (PList []) = Inl IndexError"
| "getitem0 (PList (x # xs)) = Inr x"
| "getitem0 (PStr []) = Inl IndexError"
| "getitem0 (PStr (c # cs)) = Inr (PStr [c])"
| "getitem0 (PDict kvs) = Inl KeyError"
| "getitem0 PNone = Inl TypeError"
| "getitem0 (PBool b) = Inl TypeError"
| "getitem0 (PNum r) = Inl TypeError"

text \<open>\<open>x['k']\<close> with a string key.\<close>

fun getitem :: "pyval \<Rightarrow> string \<Rightarrow> error + pyval" where
  "getitem (PDict kvs) k = (case map_of kvs k of None \<Rightarrow> Inl KeyError | Some v \<Rightarrow> Inr v)"
| "getitem PNone k = Inl TypeError"
| "getitem (PBool b) k = Inl TypeError"
| "getitem (PNum r) k = Inl TypeError"
| "getitem (PStr s) k = Inl TypeError"
| "getitem (PList xs) k = Inl TypeError"

text \<open>\<open>x.get(k, default)\<close>: only a dict has the method.\<close>

fun py_get :: "pyval \<Rightarrow> string \<Rightarrow> pyval \<Rightarrow> error + pyval" where
  "py_get (PDict kvs) k d = (case map_of kvs k of None \<Rightarrow> Inr d | Some v \<Rightarrow> Inr v)"
| "py_get PNone k d = Inl AttributeError"
| "py_get (PBool b) k d = Inl AttributeError"
| "py_get (PNum r) k d = Inl AttributeError"
| "py_get (PStr s) k d = Inl AttributeError"
| "py_get (PList xs) k d = Inl AttributeError"

text \<open>
  \<open>float(v)\<close>. How a string is read as a number is left to the parameter \<open>parse\<close>
  (\<open>None\<close> when Python raises ValueError; \<open>float('nan')\<close> does not raise).
\<close>

fun py_float :: "(string \<Rightarrow> pynum option) \<Rightarrow> pyval \<Rightarrow> error + pynum" where
  "py_float parse (PNum r) = Inr r"
| "py_float parse (PBool b) = Inr (Fin (if b then 1 else 0))"
| "py_float parse (PStr s) = (case parse s of None \<Rightarrow> Inl ValueError | Some r \<Rightarrow> Inr r)"
| "py_float parse PNone = Inl TypeError"
| "py_float parse (PList xs) = Inl TypeError"
| "py_float parse (PDict kvs) = Inl TypeError"

text \<open>
  The format specification \<open>:.6f\<close> of the f-string in \<open>process_excel\<close>: numbers (the
  special floats too, and bools, which are ints) format, a string raises ValueError,
  anything else TypeError.
\<close>

fun format_6f :: "pyval \<Rightarrow> error + unit" where
  "format_6f (PNum r) = Inr ()"
| "format_6f (PBool b) = Inr ()"
| "format_6f (PStr s) = Inl ValueError"
| "format_6f PNone = Inl TypeError"
| "format_6f (PList xs) = Inl TypeError"
| "format_6f (PDict kvs) = Inl TypeError"

text \<open>
  \<open>str.strip()\<close>: the characters are read as code points below 256, of which Python
  counts these as whitespace.
\<close>

definition isspace :: "char \<Rightarrow> bool" where
  "isspace c = (c \<in> set [CHR 0x09, CHR 0x0A, CHR 0x0B, CHR 0x0C, CHR 0x0D,
                          CHR 0x1C, CHR 0x1D, CHR 0x1E, CHR 0x1F, CHR 0x20,
                          CHR 0x85, CHR 0xA0])"

definition strip :: "string \<Rightarrow> string" where
  "strip s = rev (dropWhile isspace (rev (dropWhile isspace s)))"

section \<open>The world outside the program\<close>

text \<open>
  What the run does to the outside is recorded as a list of events, oldest first. The
  two geocoding services answer a request with a parsed JSON body or make
  \<open>requests.get\<close>, \<open>raise_for_status\<close> or \<open>response.json\<close> raise; the answer may depend
  on everything that happened before.
\<close>

datatype event =
    NominatimGet string
  | CensusGet string
  | Sleep nat
  | ReadFile string

datatype http_reply = Raises | Json pyval

datatype crs = EPSG nat

record 'g boundary =
  GEOID :: pyval
  geometry :: 'g

record 'g geodataframe =
  crs :: "crs option"
  columns :: "string list"
  features :: "'g boundary list"

record ('g, 'p) env =
  nominatim :: "event list \<Rightarrow> string \<Rightarrow> http_reply"
  census :: "event list \<Rightarrow> string \<Rightarrow> http_reply"
  parse_float :: "string \<Rightarrow> pynum option"
  read_file :: "string \<Rightarrow> error + 'g geodataframe"
  transform :: "crs \<Rightarrow> crs \<Rightarrow> 'g \<Rightarrow> 'g"
  Point :: "pyval \<Rightarrow> pyval \<Rightarrow> error + 'p"
  contains :: "'g \<Rightarrow> 'p \<Rightarrow> bool"

section \<open>The checker\<close>

text \<open>
  The two attributes of a \<open>TribalLandChecker\<close>, with the event list of the run and a
  counter of the calls of \<open>geocode_address\<close>. A cache entry \<open>Some None\<close> is the stored
  \<open>None\<close> of a failed address; no entry is \<open>None\<close>.
\<close>

type_synonym coords = "pyval \<times> pyval"

record 'g checker =
  tribal_boundaries :: "'g geodataframe option"
  geocoding_cache :: "string \<rightharpoonup> coords option"
  events :: "event list"
  resolves :: nat

definition emit :: "event \<Rightarrow> 'g checker \<Rightarrow> 'g checker" where
  "emit ev s = s\<lparr>events := events s @ [ev]\<rparr>"

definition cache_store :: "string \<Rightarrow> coords option \<Rightarrow> 'g checker \<Rightarrow> 'g checker" where
  "cache_store k v s = s\<lparr>geocoding_cache := (geocoding_cache s)(k \<mapsto> v)\<rparr>"

subsection \<open>geocode_address\<close>

text \<open>\<open>(float(data[0]['lat']), float(data[0]['lon']))\<close>\<close>

definition nominatim_result :: "(string \<Rightarrow> pynum option) \<Rightarrow> pyval \<Rightarrow> error + coords" where
  "nominatim_result parse data =
     and_then (getitem0 data) (\<lambda>d0.
     and_then (getitem d0 ''lat'') (\<lambda>latv.
     and_then (py_float parse latv) (\<lambda>lat.
     and_then (getitem0 data) (\<lambda>d1.
     and_then (getitem d1 ''lon'') (\<lambda>lonv.
     and_then (py_float parse lonv) (\<lambda>lon.
     Inr (PNum lat, PNum lon)))))))"

text \<open>\<open>data.get('result', {}).get('addressMatches')\<close>\<close>

definition census_matches :: "pyval \<Rightarrow> error + pyval" where
  "census_matches data =
     and_then (py_get data ''result'' (PDict [])) (\<lambda>r. py_get r ''addressMatches'' PNone)"

text \<open>
  \<open>match = data['result']['addressMatches'][0]\<close>, then
  \<open>(match['coordinates']['y'], match['coordinates']['x'])\<close>, not converted.
\<close>

definition census_result :: "pyval \<Rightarrow> error + coords" where
  "census_result data =
     and_then (getitem data ''result'') (\<lambda>r.
     and_then (getitem r ''addressMatches'') (\<lambda>ms.
     and_then (getitem0 ms) (\<lambda>m.
     and_then (getitem m ''coordinates'') (\<lambda>c.
     and_then (getitem c ''y'') (\<lambda>lat.
     and_then (getitem m ''coordinates'') (\<lambda>c'.
     and_then (getitem c' ''x'') (\<lambda>lon.
     Inr (lat, lon))))))))"

text \<open>
  The second provider, from \<open>census_url\<close> to the \<open>return None\<close> that ends the
  \<open>try\<close> block. The result is what the block returns or the exception it raises,
  with the checker as it is at that moment.
\<close>

definition census_stage ::
  "('g, 'p) env \<Rightarrow> 'g checker \<Rightarrow> string \<Rightarrow> (error + coords option) \<times> 'g checker" where
  "census_stage env s a =
     (let s1 = emit (CensusGet a) s in
      case census env (events s) a of
        Raises \<Rightarrow> (Inl RequestError, s1)
      | Json data \<Rightarrow>
          (case census_matches data of
             Inl e \<Rightarrow> (Inl e, s1)
           | Inr ms \<Rightarrow>
               if truthy ms then
                 (case census_result data of
                    Inl e \<Rightarrow> (Inl e, s1)
                  | Inr result \<Rightarrow> (Inr (Some result), cache_store a (Some result) s1))
               else (Inr None, cache_store a None s1)))"

text \<open>The \<open>try\<close> block after \<open>address = str(address).strip()\<close>.\<close>

definition geocode_try ::
  "('g, 'p) env \<Rightarrow> 'g checker \<Rightarrow> string \<Rightarrow> (error + coords option) \<times> 'g checker" where
  "geocode_try env s a =
     (let s1 = emit (NominatimGet a) s in
      case nominatim env (events s) a of
        Raises \<Rightarrow> (Inl RequestError, s1)
      | Json data \<Rightarrow>
          if truthy data then
            (case nominatim_result (parse_float env) data of
               Inl e \<Rightarrow> (Inl e, s1)
             | Inr result \<Rightarrow>
                 (Inr (Some result), emit (Sleep 1) (cache_store a (Some result) s1)))
          else census_stage env s1 a)"

text \<open>
  The method itself, for an address that is a string (\<open>str(address)\<close> is then the
  address). The lookup is by the address as passed; the \<open>except\<close> clause stores
  \<open>None\<close> under the stripped address and returns \<open>None\<close>.
\<close>

definition geocode_address ::
  "('g, 'p) env \<Rightarrow> 'g checker \<Rightarrow> string \<Rightarrow> coords option \<times> 'g checker" where
  "geocode_address env s0 address =
     (let s = s0\<lparr>resolves := Suc (resolves s0)\<rparr> in
      case geocoding_cache s address of
        Some r \<Rightarrow> (r, s)
      | None \<Rightarrow>
          (let a = strip address in
           case geocode_try env s a of
             (Inr r, s') \<Rightarrow> (r, s')
           | (Inl e, s') \<Rightarrow> (None, cache_store a None s')))"

subsection \<open>Boundaries\<close>

definition TIGER_URL :: string where
  "TIGER_URL = ''https://www2.census.gov/geo/tiger/TIGER2023/AIANNH/tl_2023_us_aiannh.zip''"

definition WGS84 :: crs where
  "WGS84 = EPSG 4326"

text \<open>\<open>Series.notna\<close>: a missing value of the column is \<open>PNone\<close>.\<close>

definition notna :: "pyval \<Rightarrow> bool" where
  "notna v = (v \<noteq> PNone)"

text \<open>
  \<open>GeoDataFrame.to_crs\<close>: raises on a frame that has no reference system, otherwise
  transforms every geometry and sets the new reference system.
\<close>

definition to_crs ::
  "('g, 'p) env \<Rightarrow> 'g geodataframe \<Rightarrow> crs \<Rightarrow> error + 'g geodataframe" where
  "to_crs env gdf target =
     (case crs gdf of
        None \<Rightarrow> Inl ValueError
      | Some c \<Rightarrow>
          Inr (gdf\<lparr>crs := Some target,
                   features := map (\<lambda>b. b\<lparr>geometry := transform env c target (geometry b)\<rparr>)
                                   (features gdf)\<rparr>))"

text \<open>
  \<open>download_tribal_boundaries\<close>: reads the archive and keeps the rows whose GEOID is
  present; any exception is logged and raised again. The frame is returned as read.
\<close>

definition download_tribal_boundaries ::
  "('g, 'p) env \<Rightarrow> 'g checker \<Rightarrow> error + ('g geodataframe \<times> 'g checker)" where
  "download_tribal_boundaries env s =
     (let s1 = emit (ReadFile TIGER_URL) s in
      case read_file env TIGER_URL of
        Inl e \<Rightarrow> Inl e
      | Inr gdf \<Rightarrow>
          if ''GEOID'' \<in> set (columns gdf)
          then Inr (gdf\<lparr>features := filter (\<lambda>b. notna (GEOID b)) (features gdf)\<rparr>, s1)
          else Inl KeyError)"

text \<open>\<open>load_tribal_boundaries\<close>: reads the file and brings it to EPSG:4326.\<close>

definition load_tribal_boundaries ::
  "('g, 'p) env \<Rightarrow> 'g checker \<Rightarrow> string \<Rightarrow> error + 'g checker" where
  "load_tribal_boundaries env s path =
     (let s1 = emit (ReadFile path) s in
      case read_file env path of
        Inl e \<Rightarrow> Inl e
      | Inr gdf \<Rightarrow>
          if crs gdf \<noteq> Some WGS84 then
            (case to_crs env gdf WGS84 of
               Inl e \<Rightarrow> Inl e
             | Inr gdf' \<Rightarrow> Inr (s1\<lparr>tribal_boundaries := Some gdf'\<rparr>))
          else Inr (s1\<lparr>tribal_boundaries := Some gdf\<rparr>))"

text \<open>\<open>__init__\<close>: an absent or empty path loads nothing.\<close>

definition fresh :: "'g checker" where
  "fresh = \<lparr>tribal_boundaries = None, geocoding_cache = Map.empty, events = [], resolves = 0\<rparr>"

definition init :: "('g, 'p) env \<Rightarrow> string option \<Rightarrow> error + 'g checker" where
  "init env tribal_boundaries_path =
     (case tribal_boundaries_path of
        None \<Rightarrow> Inr fresh
      | Some path \<Rightarrow> if path = [] then Inr fresh else load_tribal_boundaries env fresh path)"

subsection \<open>check_tribal_land\<close>

text \<open>The loop over \<open>iterrows()\<close>: returns at the first boundary that contains the point.\<close>

fun within_any :: "('g \<Rightarrow> 'p \<Rightarrow> bool) \<Rightarrow> 'g boundary list \<Rightarrow> 'p \<Rightarrow> bool" where
  "within_any cont [] pt = False"
| "within_any cont (b # bs) pt = (if cont (geometry b) pt then True else within_any cont bs pt)"

text \<open>The boundaries in use: those of the checker, or the downloaded ones when it has none.\<close>

definition ensure_boundaries ::
  "('g, 'p) env \<Rightarrow> 'g checker \<Rightarrow> error + ('g geodataframe \<times> 'g checker)" where
  "ensure_boundaries env s =
     (case tribal_boundaries s of
        None \<Rightarrow>
          (case download_tribal_boundaries env s of
             Inl e \<Rightarrow> Inl e
           | Inr (gdf, s1) \<Rightarrow> Inr (gdf, s1\<lparr>tribal_boundaries := Some gdf\<rparr>))
      | Some gdf \<Rightarrow> Inr (gdf, s))"

definition check_tribal_land ::
  "('g, 'p) env \<Rightarrow> 'g checker \<Rightarrow> pyval \<Rightarrow> pyval \<Rightarrow> error + (bool \<times> 'g checker)" where
  "check_tribal_land env s lat lon =
     and_then (ensure_boundaries env s) (\<lambda>(gdf, s1).
     and_then (Point env lon lat) (\<lambda>point.
     Inr (within_any (contains env) (features gdf) point, s1)))"

subsection \<open>process_excel\<close>

text \<open>
  A cell of the address column is missing (\<open>pd.isna\<close> holds) or a text, and a row of
  the result carries the three added columns, \<open>PNone\<close> until they are set. The model
  starts where the address column is known and ends before the table is written.
\<close>

datatype cell = NaN | Text string

record row =
  address :: cell
  Latitude :: pyval
  Longitude :: pyval
  On_Tribal_Land :: pyval

definition blank_row :: "cell \<Rightarrow> row" where
  "blank_row c = \<lparr>address = c, Latitude = PNone, Longitude = PNone, On_Tribal_Land = PNone\<rparr>"

text \<open>One pass of the loop body over a row.\<close>

definition process_row ::
  "('g, 'p) env \<Rightarrow> 'g checker \<Rightarrow> row \<Rightarrow> error + (row \<times> 'g checker)" where
  "process_row env s r =
     (case address r of
        NaN \<Rightarrow> Inr (r\<lparr>On_Tribal_Land := PStr ''No Data''\<rparr>, s)
      | Text a \<Rightarrow>
          (case geocode_address env s a of
             (Some (lat, lon), s1) \<Rightarrow>
               and_then (check_tribal_land env s1 lat lon) (\<lambda>(on_tribal, s2).
               and_then (format_6f lat) (\<lambda>_.
               and_then (format_6f lon) (\<lambda>_.
               Inr (r\<lparr>Latitude := lat, Longitude := lon,
                      On_Tribal_Land := PStr (if on_tribal then ''Yes'' else ''No'')\<rparr>, s2))))
           | (None, s1) \<Rightarrow> Inr (r\<lparr>On_Tribal_Land := PStr ''Could Not Geocode''\<rparr>, s1)))"

fun process_rows ::
  "('g, 'p) env \<Rightarrow> 'g checker \<Rightarrow> row list \<Rightarrow> error + (row list \<times> 'g checker)" where
  "process_rows env s [] = Inr ([], s)"
| "process_rows env s (r # rs) =
     (case process_row env s r of
        Inl e \<Rightarrow> Inl e
      | Inr (r', s1) \<Rightarrow>
          (case process_rows env s1 rs of
             Inl e \<Rightarrow> Inl e
           | Inr (rs', s2) \<Rightarrow> Inr (r' # rs', s2)))"

definition process_excel ::
  "('g, 'p) env \<Rightarrow> 'g checker \<Rightarrow> cell list \<Rightarrow> error + (row list \<times> 'g checker)" where
  "process_excel env s cells = process_rows env s (map blank_row cells)"


section \<open>Notions used in the statements\<close>

text \<open>
  The events that follow the request to Nominatim inside one call of \<open>geocode_try\<close>,
  read off the reply.
\<close>

definition after_nominatim :: "('g, 'p) env \<Rightarrow> event list \<Rightarrow> string \<Rightarrow> event list" where
  "after_nominatim env evs a =
     (case nominatim env evs a of
        Raises \<Rightarrow> []
      | Json d \<Rightarrow>
          if truthy d then
            (case nominatim_result (parse_float env) d of Inl e \<Rightarrow> [] | Inr c \<Rightarrow> [Sleep 1])
          else [CensusGet a])"

text \<open>The four labels of the result column.\<close>

definition labels :: "pyval set" where
  "labels = {PStr ''Yes'', PStr ''No'', PStr ''Could Not Geocode'', PStr ''No Data''}"

text \<open>What a processed row looks like when it started with empty result columns.\<close>

definition classified :: "row \<Rightarrow> bool" where
  "classified r =
     (On_Tribal_Land r \<in> labels
      \<and> (On_Tribal_Land r \<in> {PStr ''Yes'', PStr ''No''}
           \<longrightarrow> Latitude r \<noteq> PNone \<and> Longitude r \<noteq> PNone)
      \<and> (On_Tribal_Land r \<in> {PStr ''Could Not Geocode'', PStr ''No Data''}
           \<longrightarrow> Latitude r = PNone \<and> Longitude r = PNone))"





subsection \<open>A small world to run the program in\<close>

text \<open>
  Boundaries are axis-parallel boxes \<open>(west, south, east, north)\<close>, points are pairs
  \<open>(x, y)\<close> of numbers. As shapely documents for \<open>contains\<close>, a box contains the points of
  its interior and none of its boundary line (\<open>box_edge\<close>). Nominatim knows the address
  \<open>a\<close>, answers \<open>n\<close> with the latitude \<open>nan\<close>, fails on \<open>down\<close> and finds nothing else;
  the Census geocoder knows \<open>b\<close> only. The remote archive is in EPSG:4269, the local file
  \<open>local.shp\<close> in EPSG:3857.
\<close>

type_synonym box = "real \<times> real \<times> real \<times> real"

definition as_float :: "pyval \<Rightarrow> pynum option" where
  "as_float v = (case v of PNum r \<Rightarrow> Some r
                 | PBool b \<Rightarrow> Some (Fin (if b then 1 else 0))
                 | _ \<Rightarrow> None)"

definition box_contains :: "box \<Rightarrow> pynum \<times> pynum \<Rightarrow> bool" where
  "box_contains g pt =
     (case (g, pt) of
        ((w, s, e, n), (Fin x, Fin y)) \<Rightarrow> w < x \<and> x < e \<and> s < y \<and> y < n
      | _ \<Rightarrow> False)"

definition box_edge :: "box \<Rightarrow> pynum \<times> pynum \<Rightarrow> bool" where
  "box_edge g pt =
     (case (g, pt) of
        ((w, s, e, n), (Fin x, Fin y)) \<Rightarrow>
          ((x = w \<or> x = e) \<and> s \<le> y \<and> y \<le> n) \<or> ((y = s \<or> y = n) \<and> w \<le> x \<and> x \<le> e)
      | _ \<Rightarrow> False)"

definition demo_frame :: "box geodataframe" where
  "demo_frame =
     \<lparr>crs = Some (EPSG 4269), columns = [''GEOID'', ''NAME'', ''geometry''],
      features = [\<lparr>GEOID = PStr ''0001'', geometry = (-111, 34, -109, 36)\<rparr>,
                  \<lparr>GEOID = PNone, geometry = (-1, -1, 1, 1)\<rparr>,
                  \<lparr>GEOID = PStr ''0002'', geometry = (-100, 40, -99, 41)\<rparr>]\<rparr>"

definition demo_env :: "(box, pynum \<times> pynum) env" where
  "demo_env =
     \<lparr>nominatim = (\<lambda>evs q.
        if q = ''a'' then Json (PList [PDict [(''lat'', PStr ''35.0''), (''lon'', PStr ''-110.0'')]])
        else if q = ''n'' then Json (PList [PDict [(''lat'', PStr ''nan''), (''lon'', PStr ''-110.0'')]])
        else if q = ''down'' then Raises
        else Json (PList [])),
      census = (\<lambda>evs q.
        if q = ''b'' then
          Json (PDict [(''result'', PDict [(''addressMatches'',
                  PList [PDict [(''coordinates'', PDict [(''x'', PNum (Fin (-77))), (''y'', PNum (Fin 38))])]])])])
        else Json (PDict [(''result'', PDict [(''addressMatches'', PList [])])])),
      parse_float = (\<lambda>s. if s = ''35.0'' then Some (Fin 35)
                         else if s = ''-110.0'' then Some (Fin (-110))
                         else if s = ''nan'' then Some NotANumber else None),
      read_file = (\<lambda>p. if p = TIGER_URL then Inr demo_frame
                        else if p = ''local.shp'' then Inr (demo_frame\<lparr>crs := Some (EPSG 3857)\<rparr>)
                        else Inl ReadFileError),
      transform = (\<lambda>c c' g. g),
      Point = (\<lambda>x y. case (as_float x, as_float y) of
                       (Some u, Some v) \<Rightarrow> Inr (u, v)
                     | _ \<Rightarrow> Inl TypeError),
      contains = box_contains\<rparr>"



definition demo_loaded :: "box checker" where
  "demo_loaded = fresh\<lparr>tribal_boundaries := Some (demo_frame\<lparr>crs := Some WGS84\<rparr>)\<rparr>"

section \<open>Unfolding the program on the small world\<close>

lemmas demo_run =
  demo_env_def as_float_def box_contains_def fresh_def geocode_address_def geocode_try_def
  census_stage_def Let_def emit_def cache_store_def strip_def isspace_def nominatim_result_def
  census_matches_def census_result_def and_then_def

lemmas demo_batch =
  demo_run demo_loaded_def demo_frame_def process_excel_def process_row_def blank_row_def
  check_tribal_land_def ensure_boundaries_def download_tribal_boundaries_def notna_def
  TIGER_URL_def WGS84_def

section \<open>Stripping\<close>

lemma dropWhile_rev_hd:
  "xs \<noteq> [] \<Longrightarrow> \<not> P (hd xs) \<Longrightarrow>
   rev (dropWhile P (rev xs)) \<noteq> [] \<and> hd (rev (dropWhile P (rev xs))) = hd xs"
proof (induction xs rule: rev_induct)
  case Nil
  then show ?case by simp
next
  case (snoc x xs)
  show ?case
  proof (cases "xs = []")
    case True
    with snoc.prems show ?thesis by simp
  next
    case False
    with snoc show ?thesis by (auto simp: hd_append)
  qed
qed

lemma strip_ends:
  "strip s = [] \<or> (\<not> isspace (hd (strip s)) \<and> \<not> isspace (last (strip s)))"
proof (cases "strip s = []")
  case True
  then show ?thesis by simp
next
  case False
  let ?t = "dropWhile isspace s"
  let ?u = "dropWhile isspace (rev ?t)"
  from False have u: "?u \<noteq> []" by (simp add: strip_def)
  have t: "?t \<noteq> []"
  proof
    assume e: "?t = []"
    have "dropWhile isspace (rev []) = ([]::string)" by simp
    with e u show False by metis
  qed
  have ht: "\<not> isspace (hd ?t)" using t hd_dropWhile by blast
  have "hd (strip s) = hd ?t"
    using dropWhile_rev_hd[of "dropWhile isspace s" isspace] t ht by (simp add: strip_def)
  moreover have "last (strip s) = hd ?u" using u by (simp add: strip_def last_rev)
  moreover have "\<not> isspace (hd ?u)" using u hd_dropWhile by blast
  ultimately show ?thesis using ht by simp
qed

lemma strip_fixed:
  assumes "s = [] \<or> (\<not> isspace (hd s) \<and> \<not> isspace (last s))"
  shows "strip s = s"
proof (cases "s = []")
  case True
  then show ?thesis by (simp add: strip_def)
next
  case False
  with assms have h: "\<not> isspace (hd s)" and l: "\<not> isspace (last s)" by auto
  have 1: "dropWhile isspace s = s" using h False by (cases s) auto
  have 2: "dropWhile isspace (rev s) = rev s"
    using l False by (cases "rev s") (auto simp: last_rev hd_rev)
  show ?thesis by (simp add: strip_def 1 2)
qed

lemma strip_idem: "strip (strip s) = strip s"
  by (rule strip_fixed) (rule strip_ends)

section \<open>What one call of geocode_address does\<close>

lemma census_stage_effect:
  assumes "census_stage env s a = (r, s')"
  shows "tribal_boundaries s' = tribal_boundaries s \<and> resolves s' = resolves s
         \<and> events s' = events s @ [CensusGet a]
         \<and> geocoding_cache s' = (case r of Inl e \<Rightarrow> geocoding_cache s
                                  | Inr v \<Rightarrow> (geocoding_cache s)(a \<mapsto> v))"
  using assms
  by (auto simp: census_stage_def Let_def emit_def cache_store_def
           split: http_reply.splits sum.splits if_splits)

lemma geocode_try_effect:
  assumes "geocode_try env s a = (r, s')"
  shows "tribal_boundaries s' = tribal_boundaries s \<and> resolves s' = resolves s
         \<and> events s' = events s @ NominatimGet a # after_nominatim env (events s) a
         \<and> geocoding_cache s' = (case r of Inl e \<Rightarrow> geocoding_cache s
                                  | Inr v \<Rightarrow> (geocoding_cache s)(a \<mapsto> v))"
proof (cases "nominatim env (events s) a")
  case Raises
  with assms show ?thesis
    by (auto simp: geocode_try_def after_nominatim_def Let_def emit_def)
next
  case (Json d)
  show ?thesis
  proof (cases "truthy d")
    case True
    with Json assms show ?thesis
      by (auto simp: geocode_try_def after_nominatim_def Let_def emit_def cache_store_def
               split: sum.splits)
  next
    case False
    with Json assms have c: "census_stage env (emit (NominatimGet a) s) a = (r, s')"
      by (simp add: geocode_try_def Let_def)
    from census_stage_effect[OF c] Json False show ?thesis
      by (simp add: after_nominatim_def emit_def split: sum.splits)
  qed
qed

lemma geocode_address_hit:
  "geocoding_cache s addr = Some v \<Longrightarrow>
   geocode_address env s addr = (v, s\<lparr>resolves := Suc (resolves s)\<rparr>)"
  by (simp add: geocode_address_def Let_def)

lemma geocode_address_miss:
  assumes "geocoding_cache s addr = None"
      and "geocode_address env s addr = (r, s')"
  shows "tribal_boundaries s' = tribal_boundaries s \<and> resolves s' = Suc (resolves s)
         \<and> events s' = events s @ NominatimGet (strip addr)
                                   # after_nominatim env (events s) (strip addr)
         \<and> geocoding_cache s' = (geocoding_cache s)(strip addr \<mapsto> r)"
proof -
  let ?s = "s\<lparr>resolves := Suc (resolves s)\<rparr>"
  obtain q t where t: "geocode_try env ?s (strip addr) = (q, t)" by force
  note eff = geocode_try_effect[OF t]
  show ?thesis
  proof (cases q)
    case (Inl e)
    with assms t have "r = None" "s' = cache_store (strip addr) None t"
      by (auto simp: geocode_address_def Let_def)
    with eff Inl show ?thesis by (simp add: cache_store_def)
  next
    case (Inr v)
    with assms t have "r = v" "s' = t"
      by (auto simp: geocode_address_def Let_def)
    with eff Inr show ?thesis by simp
  qed
qed

section \<open>Membership\<close>

lemma within_any_iff:
  "within_any cont bs pt = (\<exists>b\<in>set bs. cont (geometry b) pt)"
  by (induction bs) auto

lemma check_tribal_land_loaded:
  assumes "tribal_boundaries s = Some gdf" and "Point env lon lat = Inr pt"
  shows "check_tribal_land env s lat lon
         = Inr ((\<exists>b\<in>set (features gdf). contains env (geometry b) pt), s)"
  using assms
  by (simp add: check_tribal_land_def ensure_boundaries_def and_then_def within_any_iff)

text \<open>
  C1. With boundaries loaded and the point built from (longitude, latitude),
  \<open>check_tribal_land\<close> returns true exactly when some boundary of the set contains the
  point. The answer depends on the set of boundaries only, not on their order; a match
  decides the answer whatever follows it; an empty set gives false.
\<close>

theorem check_tribal_land_any:
  assumes "tribal_boundaries s = Some gdf" and "Point env lon lat = Inr pt"
  shows "check_tribal_land env s lat lon
           = Inr ((\<exists>b\<in>set (features gdf). contains env (geometry b) pt), s)
       \<and> (\<forall>gdf'. set (features gdf') = set (features gdf) \<longrightarrow>
            check_tribal_land env (s\<lparr>tribal_boundaries := Some gdf'\<rparr>) lat lon
              = Inr ((\<exists>b\<in>set (features gdf). contains env (geometry b) pt),
                     s\<lparr>tribal_boundaries := Some gdf'\<rparr>))
       \<and> (\<forall>pre b post. features gdf = pre @ b # post \<and> contains env (geometry b) pt \<longrightarrow>
            within_any (contains env) (pre @ [b]) pt)
       \<and> (features gdf = [] \<longrightarrow> check_tribal_land env s lat lon = Inr (False, s))"
proof -
  have 1: "check_tribal_land env s lat lon
           = Inr ((\<exists>b\<in>set (features gdf). contains env (geometry b) pt), s)"
    by (rule check_tribal_land_loaded[OF assms])
  have 2: "check_tribal_land env (s\<lparr>tribal_boundaries := Some gdf'\<rparr>) lat lon
              = Inr ((\<exists>b\<in>set (features gdf). contains env (geometry b) pt),
                     s\<lparr>tribal_boundaries := Some gdf'\<rparr>)"
    if "set (features gdf') = set (features gdf)" for gdf'
    using check_tribal_land_loaded[of "s\<lparr>tribal_boundaries := Some gdf'\<rparr>" gdf' env lon lat pt]
          assms(2) that by simp
  have 3: "within_any (contains env) (pre @ [b]) pt"
    if "contains env (geometry b) pt" for pre b
    using that by (simp add: within_any_iff)
  have 4: "features gdf = [] \<longrightarrow> check_tribal_land env s lat lon = Inr (False, s)"
    using 1 by simp
  from 1 2 3 4 show ?thesis by blast
qed

theorem check_tribal_land_any_witness:
  "tribal_boundaries demo_loaded = Some (demo_frame\<lparr>crs := Some WGS84\<rparr>)
   \<and> Point demo_env (PNum (Fin (-110))) (PNum (Fin 35)) = Inr (Fin (-110), Fin 35)
   \<and> check_tribal_land demo_env demo_loaded (PNum (Fin 35)) (PNum (Fin (-110))) = Inr (True, demo_loaded)"
proof -
  have h1: "tribal_boundaries demo_loaded = Some (demo_frame\<lparr>crs := Some WGS84\<rparr>)"
    by (simp add: demo_loaded_def)
  have h2: "Point demo_env (PNum (Fin (-110))) (PNum (Fin 35)) = Inr (Fin (-110), Fin 35)"
    by (simp add: demo_env_def as_float_def)
  have "(\<exists>b\<in>set (features (demo_frame\<lparr>crs := Some WGS84\<rparr>)).
           contains demo_env (geometry b) (Fin (-110), Fin 35))"
    by (simp add: demo_frame_def demo_env_def box_contains_def)
  with check_tribal_land_any[OF h1 h2] h1 h2 show ?thesis by simp
qed

subsection \<open>Points on a boundary line\<close>

text \<open>
  C7, as amended. \<open>check_tribal_land\<close> adds no edge handling of its own: for a point on
  the boundary line of a polygon of the store, and a containment test that, like
  shapely's \<open>contains\<close>, holds for no point of a boundary line, that polygon does not
  count. The answer is true exactly when another polygon contains the point, and false
  when every polygon either does not contain it or has it on its boundary line.
\<close>

theorem boundary_line_follows_contains:
  assumes loaded: "tribal_boundaries s = Some gdf"
      and point: "Point env lon lat = Inr pt"
      and member: "b \<in> set (features gdf)"
      and on_line: "edge (geometry b) pt"
      and convention: "\<forall>g p. edge g p \<longrightarrow> \<not> contains env g p"
  shows "check_tribal_land env s lat lon
           = Inr ((\<exists>b'\<in>set (features gdf) - {b}. contains env (geometry b') pt), s)
       \<and> ((\<forall>b'\<in>set (features gdf). \<not> contains env (geometry b') pt \<or> edge (geometry b') pt)
            \<longrightarrow> check_tribal_land env s lat lon = Inr (False, s))"
proof -
  have nb: "\<not> contains env (geometry b) pt" using on_line convention by blast
  have eq: "(\<exists>b'\<in>set (features gdf). contains env (geometry b') pt)
            = (\<exists>b'\<in>set (features gdf) - {b}. contains env (geometry b') pt)"
    using nb by blast
  have 1: "check_tribal_land env s lat lon
           = Inr ((\<exists>b'\<in>set (features gdf) - {b}. contains env (geometry b') pt), s)"
    using check_tribal_land_loaded[OF loaded point] eq by simp
  have 2: "check_tribal_land env s lat lon = Inr (False, s)"
    if "\<forall>b'\<in>set (features gdf). \<not> contains env (geometry b') pt \<or> edge (geometry b') pt"
  proof -
    from that convention have "\<not> (\<exists>b'\<in>set (features gdf). contains env (geometry b') pt)"
      by blast
    with check_tribal_land_loaded[OF loaded point] show ?thesis by simp
  qed
  from 1 2 show ?thesis by blast
qed

lemma box_edge_not_contained: "box_edge g p \<Longrightarrow> \<not> box_contains g p"
  by (cases g; cases p) (auto simp: box_edge_def box_contains_def split: pynum.splits)

theorem boundary_line_follows_contains_witness:
  "tribal_boundaries demo_loaded = Some (demo_frame\<lparr>crs := Some WGS84\<rparr>)
   \<and> Point demo_env (PNum (Fin (-111))) (PNum (Fin 35)) = Inr (Fin (-111), Fin 35)
   \<and> box_edge (-111, 34, -109, 36) (Fin (-111), Fin 35)
   \<and> check_tribal_land demo_env demo_loaded (PNum (Fin 35)) (PNum (Fin (-111)))
       = Inr (False, demo_loaded)"
proof -
  let ?b = "\<lparr>GEOID = PStr ''0001'', geometry = (-111, 34, -109, 36) :: box\<rparr>"
  have h1: "tribal_boundaries demo_loaded = Some (demo_frame\<lparr>crs := Some WGS84\<rparr>)"
    by (simp add: demo_loaded_def)
  have h2: "Point demo_env (PNum (Fin (-111))) (PNum (Fin 35)) = Inr (Fin (-111), Fin 35)"
    by (simp add: demo_env_def as_float_def)
  have h3: "?b \<in> set (features (demo_frame\<lparr>crs := Some WGS84\<rparr>))"
    by (simp add: demo_frame_def)
  have h4: "box_edge (geometry ?b) (Fin (-111), Fin 35)"
    by (simp add: box_edge_def)
  have h5: "\<forall>g p. box_edge g p \<longrightarrow> \<not> contains demo_env g p"
    using box_edge_not_contained by (simp add: demo_env_def)
  have none: "\<forall>b'\<in>set (features (demo_frame\<lparr>crs := Some WGS84\<rparr>)).
                \<not> contains demo_env (geometry b') (Fin (-111), Fin 35)
                \<or> box_edge (geometry b') (Fin (-111), Fin 35)"
    by (simp add: demo_frame_def demo_env_def box_contains_def)
  from boundary_line_follows_contains[OF h1 h2 h3 h4 h5] none
  have "check_tribal_land demo_env demo_loaded (PNum (Fin 35)) (PNum (Fin (-111)))
          = Inr (False, demo_loaded)" by blast
  with h1 h2 h4 show ?thesis by simp
qed

text \<open>
  C7, as stated, fails on the west edge of the first box: the point (-111, 35) lies on
  its boundary line and \<open>check_tribal_land\<close> answers false.
\<close>

theorem boundary_line_point_is_outside:
  "box_edge (-111, 34, -109, 36) (Fin (-111), Fin 35)
   \<and> check_tribal_land demo_env demo_loaded (PNum (Fin 35)) (PNum (Fin (-111)))
       = Inr (False, demo_loaded)"
  by (simp add: box_edge_def demo_batch)

section \<open>Order of the providers\<close>

lemma census_fallback_success:
  assumes "geocoding_cache s addr = None"
      and "nominatim env (events s) (strip addr) = Json d" and "\<not> truthy d"
      and "census env (events s @ [NominatimGet (strip addr)]) (strip addr) = Json d2"
      and "census_matches d2 = Inr ms" and "truthy ms" and "census_result d2 = Inr c"
  shows "fst (geocode_address env s addr) = Some c
         \<and> geocoding_cache (snd (geocode_address env s addr)) (strip addr) = Some (Some c)"
  using assms
  by (simp add: geocode_address_def geocode_try_def census_stage_def Let_def emit_def
                cache_store_def)

text \<open>
  C2. On a cache miss the request to Nominatim comes first and is the only one to it;
  the Census geocoder is asked exactly when Nominatim answered with an empty (falsy)
  result, not when it raised; and a match of the Census geocoder is returned and stored
  under the stripped address.
\<close>

theorem provider_order:
  assumes miss: "geocoding_cache s addr = None"
      and run: "geocode_address env s addr = (r, s')"
  shows "(\<exists>rest. events s' = events s @ NominatimGet (strip addr) # rest
            \<and> (\<forall>q. NominatimGet q \<notin> set rest)
            \<and> ((\<exists>q. CensusGet q \<in> set rest)
                 \<longleftrightarrow> (\<exists>d. nominatim env (events s) (strip addr) = Json d \<and> \<not> truthy d))
            \<and> (nominatim env (events s) (strip addr) = Json (PList [])
                 \<longrightarrow> rest = [CensusGet (strip addr)]))
       \<and> (\<forall>d d2 ms c.
             nominatim env (events s) (strip addr) = Json d \<and> \<not> truthy d
             \<and> census env (events s @ [NominatimGet (strip addr)]) (strip addr) = Json d2
             \<and> census_matches d2 = Inr ms \<and> truthy ms \<and> census_result d2 = Inr c
             \<longrightarrow> r = Some c \<and> geocoding_cache s' (strip addr) = Some (Some c))"
proof -
  let ?a = "strip addr"
  let ?rest = "after_nominatim env (events s) ?a"
  from geocode_address_miss[OF miss run]
  have ev: "events s' = events s @ NominatimGet ?a # ?rest" by simp
  have no_n: "\<forall>q. NominatimGet q \<notin> set ?rest"
    by (auto simp: after_nominatim_def split: http_reply.splits sum.splits)
  have c_iff: "(\<exists>q. CensusGet q \<in> set ?rest)
               \<longleftrightarrow> (\<exists>d. nominatim env (events s) ?a = Json d \<and> \<not> truthy d)"
  proof (cases "nominatim env (events s) ?a")
    case Raises
    then show ?thesis by (simp add: after_nominatim_def)
  next
    case (Json d)
    then show ?thesis by (cases "truthy d") (simp_all add: after_nominatim_def split: sum.splits)
  qed
  have empty: "nominatim env (events s) ?a = Json (PList []) \<longrightarrow> ?rest = [CensusGet ?a]"
    by (simp add: after_nominatim_def)
  have p2: "r = Some c \<and> geocoding_cache s' ?a = Some (Some c)"
    if "nominatim env (events s) ?a = Json d" "\<not> truthy d"
       "census env (events s @ [NominatimGet ?a]) ?a = Json d2"
       "census_matches d2 = Inr ms" "truthy ms" "census_result d2 = Inr c"
    for d d2 ms c
    using census_fallback_success[OF miss that] run by simp
  from ev no_n c_iff empty p2 show ?thesis by blast
qed

theorem provider_order_witness:
  "geocoding_cache (fresh :: box checker) '' b '' = None
   \<and> fst (geocode_address demo_env fresh '' b '') = Some (PNum (Fin 38), PNum (Fin (-77)))
   \<and> events (snd (geocode_address demo_env fresh '' b '')) = [NominatimGet ''b'', CensusGet ''b'']
   \<and> geocoding_cache (snd (geocode_address demo_env fresh '' b '')) ''b''
       = Some (Some (PNum (Fin 38), PNum (Fin (-77))))"
proof -
  have miss: "geocoding_cache (fresh :: box checker) '' b '' = None"
    by (simp add: fresh_def)
  obtain r s' where run: "geocode_address demo_env (fresh :: box checker) '' b '' = (r, s')"
    by force
  have a: "strip '' b '' = ''b''" by (simp add: strip_def isspace_def)
  have n: "nominatim demo_env (events (fresh :: box checker)) ''b'' = Json (PList [])"
    by (simp add: demo_env_def)
  have e0: "events (fresh :: box checker) = []" by (simp add: fresh_def)
  from provider_order[OF miss run] a n e0
  have ev: "events s' = [NominatimGet ''b'', CensusGet ''b'']" by auto
  let ?d2 = "PDict [(''result'', PDict [(''addressMatches'',
                  PList [PDict [(''coordinates'', PDict [(''x'', PNum (Fin (-77))), (''y'', PNum (Fin 38))])]])])]"
  have c: "census demo_env ([] @ [NominatimGet ''b'']) ''b'' = Json ?d2"
    by (simp add: demo_env_def)
  have m: "census_matches ?d2 = Inr (PList [PDict [(''coordinates'', PDict [(''x'', PNum (Fin (-77))), (''y'', PNum (Fin 38))])]])"
    by (simp add: census_matches_def and_then_def)
  have cr: "census_result ?d2 = Inr (PNum (Fin 38), PNum (Fin (-77)))"
    by (simp add: census_result_def and_then_def)
  from provider_order[OF miss run] a n e0 c m cr
  have "r = Some (PNum (Fin 38), PNum (Fin (-77))) \<and> geocoding_cache s' ''b'' = Some (Some (PNum (Fin 38), PNum (Fin (-77))))"
    by simp
  with ev run miss show ?thesis by simp
qed

section \<open>The cache\<close>

text \<open>
  C10. A call that misses the cache ends with exactly one new entry, the returned
  result (coordinates or the stored \<open>None\<close>) under the stripped address, and nothing
  else in the cache changes. The lookup is by the address as passed: when all keys are
  stripped, which holds for a fresh checker and is kept by every call, an address with
  surrounding whitespace is still absent after its own call, while its stripped form
  is answered from the cache.
\<close>

theorem cache_keys_trimmed:
  assumes miss: "geocoding_cache s addr = None"
      and run: "geocode_address env s addr = (r, s')"
  shows "geocoding_cache s' = (geocoding_cache s)(strip addr \<mapsto> r)
       \<and> dom (geocoding_cache s') = insert (strip addr) (dom (geocoding_cache s))
       \<and> geocode_address env s' (strip addr) = (r, s'\<lparr>resolves := Suc (resolves s')\<rparr>)
       \<and> ((\<forall>k\<in>dom (geocoding_cache s). strip k = k) \<longrightarrow>
            (\<forall>k\<in>dom (geocoding_cache s'). strip k = k)
            \<and> (strip addr \<noteq> addr \<longrightarrow> geocoding_cache s' addr = None))"
proof -
  from geocode_address_miss[OF miss run]
  have c: "geocoding_cache s' = (geocoding_cache s)(strip addr \<mapsto> r)" by simp
  then have d: "dom (geocoding_cache s') = insert (strip addr) (dom (geocoding_cache s))"
    by simp
  from c have "geocoding_cache s' (strip addr) = Some r" by simp
  then have hit: "geocode_address env s' (strip addr) = (r, s'\<lparr>resolves := Suc (resolves s')\<rparr>)"
    by (rule geocode_address_hit)
  have inv: "(\<forall>k\<in>dom (geocoding_cache s'). strip k = k)
             \<and> (strip addr \<noteq> addr \<longrightarrow> geocoding_cache s' addr = None)"
    if k: "\<forall>k\<in>dom (geocoding_cache s). strip k = k"
  proof
    show "\<forall>k\<in>dom (geocoding_cache s'). strip k = k"
      using k d by (auto simp: strip_idem)
    show "strip addr \<noteq> addr \<longrightarrow> geocoding_cache s' addr = None"
      using c miss by simp
  qed
  from c d hit inv show ?thesis by blast
qed

theorem cache_keys_trimmed_witness:
  "geocoding_cache (fresh :: box checker) '' a '' = None
   \<and> dom (geocoding_cache (fresh :: box checker)) = {}
   \<and> strip '' a '' \<noteq> '' a ''
   \<and> geocoding_cache (snd (geocode_address demo_env fresh '' a '')) '' a '' = None
   \<and> geocoding_cache (snd (geocode_address demo_env fresh '' a '')) ''a''
       = Some (Some (PNum (Fin 35), PNum (Fin (-110))))
   \<and> fst (geocode_address demo_env (snd (geocode_address demo_env fresh '' a '')) ''a'')
       = Some (PNum (Fin 35), PNum (Fin (-110)))"
proof -
  have miss: "geocoding_cache (fresh :: box checker) '' a '' = None"
    by (simp add: fresh_def)
  have keys: "\<forall>k\<in>dom (geocoding_cache (fresh :: box checker)). strip k = k"
    by (simp add: fresh_def)
  have a: "strip '' a '' = ''a''" by (simp add: strip_def isspace_def)
  have r: "fst (geocode_address demo_env (fresh :: box checker) '' a '') = Some (PNum (Fin 35), PNum (Fin (-110)))"
    by (simp add: demo_run)
  obtain s' where run: "geocode_address demo_env (fresh :: box checker) '' a ''
                        = (Some (PNum (Fin 35), PNum (Fin (-110))), s')"
    using r by (cases "geocode_address demo_env (fresh :: box checker) '' a ''") simp
  have empty: "dom (geocoding_cache (fresh :: box checker)) = {}"
    by (simp add: fresh_def)
  from cache_keys_trimmed[OF miss run] keys a run miss empty show ?thesis by simp
qed

text \<open>
  C3. The address \<open>" a "\<close> resolved twice on a fresh checker: the second call does not
  find the entry stored under \<open>"a"\<close> and asks Nominatim again.
\<close>

theorem repeated_untrimmed_address_asks_again:
  "events (snd (geocode_address demo_env (snd (geocode_address demo_env fresh '' a '')) '' a ''))
     = [NominatimGet ''a'', Sleep 1, NominatimGet ''a'', Sleep 1]"
  by (simp add: demo_run)

text \<open>
  The same in general: once all keys are stripped, a second call with an address that
  has surrounding whitespace starts with a new request to Nominatim.
\<close>

lemma untrimmed_repeat_misses:
  assumes keys: "\<forall>k\<in>dom (geocoding_cache s). strip k = k"
      and ws: "strip addr \<noteq> addr"
      and first: "geocode_address env s addr = (r, s')"
      and second: "geocode_address env s' addr = (r2, s'')"
  shows "events s'' = events s' @ NominatimGet (strip addr)
                                  # after_nominatim env (events s') (strip addr)"
proof -
  have miss: "geocoding_cache s addr = None"
  proof (rule ccontr)
    assume "geocoding_cache s addr \<noteq> None"
    then have "addr \<in> dom (geocoding_cache s)" by auto
    with keys ws show False by blast
  qed
  from geocode_address_miss[OF miss first] ws
  have "geocoding_cache s' addr = None" using miss by simp
  from geocode_address_miss[OF this second] show ?thesis by simp
qed

lemma geocode_failure_cached:
  assumes "geocoding_cache s addr = None"
      and "geocode_address env s addr = (None, s')"
  shows "geocoding_cache s' (strip addr) = Some None
       \<and> (strip addr = addr \<longrightarrow>
            geocode_address env s' addr = (None, s'\<lparr>resolves := Suc (resolves s')\<rparr>))"
proof -
  from geocode_address_miss[OF assms]
  have c: "geocoding_cache s' (strip addr) = Some None" by simp
  from geocode_address_hit[of s' "strip addr" None env] c show ?thesis by auto
qed

lemma nominatim_error_is_failure:
  assumes "geocoding_cache s addr = None"
      and "nominatim env (events s) (strip addr) = Raises
           \<or> (\<exists>d e. nominatim env (events s) (strip addr) = Json d \<and> truthy d
                \<and> nominatim_result (parse_float env) d = Inl e)"
  shows "fst (geocode_address env s addr) = None"
  using assms
  by (auto simp: geocode_address_def geocode_try_def Let_def emit_def cache_store_def)

lemma census_error_is_failure:
  assumes miss: "geocoding_cache s addr = None"
      and n: "nominatim env (events s) (strip addr) = Json d" "\<not> truthy d"
      and c: "census env (events s @ [NominatimGet (strip addr)]) (strip addr) = Raises
           \<or> (\<exists>d2. census env (events s @ [NominatimGet (strip addr)]) (strip addr) = Json d2
                \<and> (isl (census_matches d2)
                    \<or> (\<exists>ms. census_matches d2 = Inr ms
                          \<and> (\<not> truthy ms \<or> isl (census_result d2)))))"
  shows "fst (geocode_address env s addr) = None"
proof -
  let ?a = "strip addr"
  let ?s = "s\<lparr>resolves := Suc (resolves s)\<rparr>"
  have t: "geocode_try env ?s ?a = census_stage env (emit (NominatimGet ?a) ?s) ?a"
    using n by (simp add: geocode_try_def Let_def)
  have ev: "events (emit (NominatimGet ?a) ?s) = events s @ [NominatimGet ?a]"
    by (simp add: emit_def)
  from c have "\<exists>s1. census_stage env (emit (NominatimGet ?a) ?s) ?a = (Inr None, s1)
                \<or> (\<exists>e. census_stage env (emit (NominatimGet ?a) ?s) ?a = (Inl e, s1))"
  proof
    assume "census env (events s @ [NominatimGet ?a]) ?a = Raises"
    then show ?thesis by (simp add: census_stage_def Let_def ev)
  next
    assume "\<exists>d2. census env (events s @ [NominatimGet ?a]) ?a = Json d2
                \<and> (isl (census_matches d2)
                    \<or> (\<exists>ms. census_matches d2 = Inr ms
                          \<and> (\<not> truthy ms \<or> isl (census_result d2))))"
    then obtain d2 where
      d2: "census env (events s @ [NominatimGet ?a]) ?a = Json d2"
      and bad: "isl (census_matches d2)
                \<or> (\<exists>ms. census_matches d2 = Inr ms
                      \<and> (\<not> truthy ms \<or> isl (census_result d2)))"
      by blast
    from bad show ?thesis
      using d2
      by (cases "census_matches d2"; cases "census_result d2")
         (auto simp: census_stage_def Let_def ev)
  qed
  with t miss show ?thesis
    by (auto simp: geocode_address_def Let_def)
qed

text \<open>
  C4. The address \<open>" zz "\<close>, which no provider knows: the first call returns nothing and
  stores \<open>None\<close> under \<open>"zz"\<close>; the second call misses the cache and asks both providers
  again.
\<close>

theorem failed_untrimmed_address_is_retried:
  "fst (geocode_address demo_env fresh '' zz '') = None
   \<and> geocoding_cache (snd (geocode_address demo_env fresh '' zz '')) ''zz'' = Some None
   \<and> geocoding_cache (snd (geocode_address demo_env fresh '' zz '')) '' zz '' = None
   \<and> events (snd (geocode_address demo_env (snd (geocode_address demo_env fresh '' zz '')) '' zz ''))
       = [NominatimGet ''zz'', CensusGet ''zz'', NominatimGet ''zz'', CensusGet ''zz'']"
  by (simp add: demo_run)

section \<open>Pacing\<close>

lemma sleep_iff_nominatim_match:
  "(\<exists>n. Sleep n \<in> set (after_nominatim env evs a))
   \<longleftrightarrow> (\<exists>d c. nominatim env evs a = Json d \<and> truthy d
                \<and> nominatim_result (parse_float env) d = Inr c)"
proof (cases "nominatim env evs a")
  case Raises
  then show ?thesis by (simp add: after_nominatim_def)
next
  case (Json d)
  then show ?thesis
    by (cases "truthy d"; cases "nominatim_result (parse_float env) d")
       (simp_all add: after_nominatim_def)
qed

text \<open>
  C9. Three calls that each send a request to Nominatim and return without sleeping:
  an empty answer followed by a failed fallback, an empty answer followed by a match of
  the Census geocoder, and a request that raises.
\<close>

theorem no_sleep_after_empty_or_failed_nominatim:
  "events (snd (geocode_address demo_env fresh ''zz'')) = [NominatimGet ''zz'', CensusGet ''zz'']
   \<and> events (snd (geocode_address demo_env fresh ''b'')) = [NominatimGet ''b'', CensusGet ''b'']
   \<and> events (snd (geocode_address demo_env fresh ''down'')) = [NominatimGet ''down'']"
  by (simp add: demo_run)

section \<open>The batch\<close>

lemma geocode_address_resolves:
  assumes "geocode_address env s addr = (r, s')"
  shows "resolves s' = Suc (resolves s)"
proof (cases "geocoding_cache s addr")
  case None
  from geocode_address_miss[OF None assms] show ?thesis by simp
next
  case (Some v)
  from geocode_address_hit[OF Some, of env] assms show ?thesis by auto
qed

lemma check_tribal_land_resolves:
  assumes "check_tribal_land env s lat lon = Inr (b, s')"
  shows "resolves s' = resolves s \<and> geocoding_cache s' = geocoding_cache s"
  using assms
  by (auto simp: check_tribal_land_def ensure_boundaries_def download_tribal_boundaries_def
                 and_then_def Let_def emit_def
           split: option.splits sum.splits if_splits prod.splits)

lemma format_6f_not_none: "format_6f v = Inr u \<Longrightarrow> v \<noteq> PNone"
  by (cases v) auto

lemma process_row_missing:
  "address r = NaN \<Longrightarrow> process_row env s r = Inr (r\<lparr>On_Tribal_Land := PStr ''No Data''\<rparr>, s)"
  by (simp add: process_row_def)

lemma process_row_text:
  assumes "address r = Text a" and "process_row env s r = Inr (r', s')"
  shows "resolves s' = Suc (resolves s)
       \<and> ((r' = r\<lparr>On_Tribal_Land := PStr ''Could Not Geocode''\<rparr>
            \<and> fst (geocode_address env s a) = None)
          \<or> (\<exists>lat lon on. fst (geocode_address env s a) = Some (lat, lon)
               \<and> lat \<noteq> PNone \<and> lon \<noteq> PNone
               \<and> r' = r\<lparr>Latitude := lat, Longitude := lon,
                         On_Tribal_Land := PStr (if on then ''Yes'' else ''No'')\<rparr>))"
proof -
  obtain c s1 where g: "geocode_address env s a = (c, s1)" by force
  note res = geocode_address_resolves[OF g]
  show ?thesis
  proof (cases c)
    case None
    with assms g res show ?thesis by (simp add: process_row_def)
  next
    case (Some p)
    obtain lat lon where p: "p = (lat, lon)" by force
    from assms g Some p obtain on s2 where
      chk: "check_tribal_land env s1 lat lon = Inr (on, s2)"
      by (auto simp: process_row_def and_then_def split: sum.splits)
    from assms g Some p chk have
      f1: "format_6f lat = Inr ()" and f2: "format_6f lon = Inr ()"
      and r': "r' = r\<lparr>Latitude := lat, Longitude := lon,
                       On_Tribal_Land := PStr (if on then ''Yes'' else ''No'')\<rparr>"
      and s': "s' = s2"
      by (auto simp: process_row_def and_then_def split: sum.splits)
    from check_tribal_land_resolves[OF chk] res s' have "resolves s' = Suc (resolves s)" by simp
    moreover have "lat \<noteq> PNone" "lon \<noteq> PNone"
      using f1 f2 format_6f_not_none by blast+
    ultimately show ?thesis using g Some p r' by auto
  qed
qed

lemma process_row_classified:
  assumes "process_row env s (blank_row c) = Inr (r', s')"
  shows "classified r' \<and> address r' = c
       \<and> (c = NaN \<longrightarrow> r' = (blank_row NaN)\<lparr>On_Tribal_Land := PStr ''No Data''\<rparr> \<and> s' = s)
       \<and> resolves s' = resolves s + (if c = NaN then 0 else 1)"
proof (cases c)
  case NaN
  then have "address (blank_row c) = NaN" by (simp add: blank_row_def)
  from process_row_missing[OF this, of env s] assms NaN show ?thesis
    by (auto simp: classified_def labels_def blank_row_def)
next
  case (Text a)
  then have "address (blank_row c) = Text a" by (simp add: blank_row_def)
  from process_row_text[OF this assms] Text show ?thesis
    by (auto simp: classified_def labels_def blank_row_def split: if_splits)
qed

lemma process_rows_classified:
  assumes "process_rows env s (map blank_row cells) = Inr (df, s')"
  shows "map address df = cells \<and> (\<forall>r\<in>set df. classified r)
       \<and> (\<forall>i<length cells. cells ! i = NaN \<longrightarrow>
             df ! i = (blank_row NaN)\<lparr>On_Tribal_Land := PStr ''No Data''\<rparr>)
       \<and> resolves s' = resolves s + length (filter (\<lambda>c. c \<noteq> NaN) cells)"
  using assms
proof (induction cells arbitrary: s df)
  case Nil
  then show ?case by simp
next
  case (Cons c cells)
  from Cons.prems obtain r' s1 rs' where
    row: "process_row env s (blank_row c) = Inr (r', s1)"
    and rest: "process_rows env s1 (map blank_row cells) = Inr (rs', s')"
    and df: "df = r' # rs'"
    by (auto split: sum.splits prod.splits)
  note ih = Cons.IH[OF rest]
  note hd = process_row_classified[OF row]
  have nth: "\<forall>i<length (c # cells). (c # cells) ! i = NaN \<longrightarrow>
               df ! i = (blank_row NaN)\<lparr>On_Tribal_Land := PStr ''No Data''\<rparr>"
  proof (intro allI impI)
    fix i assume "i < length (c # cells)" and "(c # cells) ! i = NaN"
    then show "df ! i = (blank_row NaN)\<lparr>On_Tribal_Land := PStr ''No Data''\<rparr>"
      using ih hd df by (cases i) auto
  qed
  from ih hd df nth show ?case by auto
qed



















lemma demo_batch_run:
  "\<exists>s'. process_excel demo_env demo_loaded [Text ''a'', NaN, Text ''zz'', Text '' b '']
    = Inr ([\<lparr>address = Text ''a'', Latitude = PNum (Fin 35), Longitude = PNum (Fin (-110)),
              On_Tribal_Land = PStr ''Yes''\<rparr>,
            \<lparr>address = NaN, Latitude = PNone, Longitude = PNone,
              On_Tribal_Land = PStr ''No Data''\<rparr>,
            \<lparr>address = Text ''zz'', Latitude = PNone, Longitude = PNone,
              On_Tribal_Land = PStr ''Could Not Geocode''\<rparr>,
            \<lparr>address = Text '' b '', Latitude = PNum (Fin 38), Longitude = PNum (Fin (-77)),
              On_Tribal_Land = PStr ''No''\<rparr>], s')"
  by (simp add: demo_batch)



text \<open>
  C6, as amended. A row whose address cell is missing is labelled No Data with both
  coordinates unset, and \<open>geocode_address\<close> is called once per text cell and never for
  a missing one: the pass over a missing row leaves the checker as it was.
\<close>

theorem missing_address_no_data:
  assumes "process_excel env s cells = Inr (df, s')"
  shows "(\<forall>i<length cells. cells ! i = NaN \<longrightarrow>
            df ! i = \<lparr>address = NaN, Latitude = PNone, Longitude = PNone,
                      On_Tribal_Land = PStr ''No Data''\<rparr>)
       \<and> resolves s' = resolves s + length (filter (\<lambda>c. c \<noteq> NaN) cells)
       \<and> process_row env s (blank_row NaN)
           = Inr (\<lparr>address = NaN, Latitude = PNone, Longitude = PNone,
                    On_Tribal_Land = PStr ''No Data''\<rparr>, s)"
proof -
  from assms have run: "process_rows env s (map blank_row cells) = Inr (df, s')"
    by (simp add: process_excel_def)
  have b: "(blank_row NaN)\<lparr>On_Tribal_Land := PStr ''No Data''\<rparr>
           = \<lparr>address = NaN, Latitude = PNone, Longitude = PNone,
               On_Tribal_Land = PStr ''No Data''\<rparr>"
    by (simp add: blank_row_def)
  have "address (blank_row NaN) = NaN" by (simp add: blank_row_def)
  from process_row_missing[OF this, of env s] b
  have one: "process_row env s (blank_row NaN)
           = Inr (\<lparr>address = NaN, Latitude = PNone, Longitude = PNone,
                    On_Tribal_Land = PStr ''No Data''\<rparr>, s)" by simp
  from process_rows_classified[OF run] b one show ?thesis by simp
qed

theorem missing_address_no_data_witness:
  "\<exists>df s'. process_excel demo_env demo_loaded [Text ''a'', NaN, Text ''zz'', Text '' b '']
              = Inr (df, s')
     \<and> [Text ''a'', NaN, Text ''zz'', Text '' b ''] ! 1 = NaN
     \<and> df ! 1 = \<lparr>address = NaN, Latitude = PNone, Longitude = PNone,
                  On_Tribal_Land = PStr ''No Data''\<rparr>
     \<and> resolves s' = 3"
proof -
  from demo_batch_run obtain df s' where
    run: "process_excel demo_env demo_loaded [Text ''a'', NaN, Text ''zz'', Text '' b '']
          = Inr (df, s')" by blast
  have r0: "resolves demo_loaded = 0" by (simp add: demo_loaded_def fresh_def)
  from missing_address_no_data[OF run] r0
  have "df ! 1 = \<lparr>address = NaN, Latitude = PNone, Longitude = PNone,
                  On_Tribal_Land = PStr ''No Data''\<rparr> \<and> resolves s' = 3"
    by simp
  with run show ?thesis by simp
qed

text \<open>
  C6, as stated, fails on a cell of two spaces: it is not missing, so the row goes to
  the resolver, which asks both providers for the empty string.
\<close>

theorem whitespace_address_is_geocoded:
  "process_excel demo_env demo_loaded [Text ''  '']
     = Inr ([\<lparr>address = Text ''  '', Latitude = PNone, Longitude = PNone,
               On_Tribal_Land = PStr ''Could Not Geocode''\<rparr>],
            demo_loaded\<lparr>geocoding_cache := [[] \<mapsto> None],
                        events := [NominatimGet [], CensusGet []],
                        resolves := 1\<rparr>)"
  by (simp add: demo_batch)

section \<open>Reference system of the boundaries\<close>

lemma load_tribal_boundaries_crs:
  assumes "load_tribal_boundaries env s path = Inr s'"
  shows "\<exists>gdf. tribal_boundaries s' = Some gdf \<and> crs gdf = Some WGS84"
  using assms
  by (auto simp: load_tribal_boundaries_def to_crs_def Let_def emit_def
           split: sum.splits if_splits option.splits)

lemma lazy_download_crs:
  assumes "tribal_boundaries s = None"
      and "check_tribal_land env s lat lon = Inr (b, s')"
  shows "\<exists>src gdf. read_file env TIGER_URL = Inr src \<and> tribal_boundaries s' = Some gdf
                   \<and> crs gdf = crs src
                   \<and> features gdf = filter (\<lambda>b. notna (GEOID b)) (features src)"
  using assms
  by (auto simp: check_tribal_land_def ensure_boundaries_def download_tribal_boundaries_def
                 and_then_def Let_def emit_def
           split: sum.splits if_splits prod.splits)

text \<open>
  C8. On a fresh checker the first \<open>check_tribal_land\<close> downloads the boundaries and
  keeps them in the reference system of the archive, here EPSG:4269, while
  \<open>load_tribal_boundaries\<close> brings a local file in EPSG:3857 to EPSG:4326.
\<close>

theorem lazy_download_is_not_reprojected:
  "check_tribal_land demo_env fresh (PNum (Fin 35)) (PNum (Fin (-110)))
     = Inr (True, fresh\<lparr>tribal_boundaries :=
                          Some \<lparr>crs = Some (EPSG 4269),
                                columns = [''GEOID'', ''NAME'', ''geometry''],
                                features = [\<lparr>GEOID = PStr ''0001'', geometry = (-111, 34, -109, 36)\<rparr>,
                                            \<lparr>GEOID = PStr ''0002'', geometry = (-100, 40, -99, 41)\<rparr>]\<rparr>,
                        events := [ReadFile TIGER_URL]\<rparr>)
   \<and> map_option crs (tribal_boundaries (projr (load_tribal_boundaries demo_env fresh ''local.shp'')))
       = Some (Some (EPSG 4326))"
  by (simp add: demo_batch load_tribal_boundaries_def to_crs_def)

end
